theory Spec2Isabelle
  imports Complex_Main "HOL-Library.Option_ord" "HOL-Library.Product_Lexorder"
begin

section \<open>SQL values and expressions\<close>

text \<open>
  The pipeline's transformations are SQL statements. A nullable column of type \<open>'a\<close> is
  an \<open>'a option\<close> with \<open>None\<close> for NULL, and a SQL condition is three-valued: a
  \<open>bool option\<close> with \<open>None\<close> for UNKNOWN. A comparison with a NULL operand is UNKNOWN; a
  \<open>WHEN\<close> branch and a \<open>WHERE\<close> clause select only on TRUE (\<open>sql_true\<close>). Numbers of type
  DOUBLE and DECIMAL are exact rationals here: binary rounding, NaN and the precision of
  decimal intermediates are not modelled.
\<close>

type_synonym sql_bool = "bool option"

definition sql_true :: "sql_bool \<Rightarrow> bool" where
  "sql_true c = (c = Some True)"

definition sql_is_null :: "'a option \<Rightarrow> sql_bool" where
  "sql_is_null v = Some (v = None)"

definition sql_is_not_null :: "'a option \<Rightarrow> sql_bool" where
  "sql_is_not_null v = Some (v \<noteq> None)"

definition sql_lt :: "'a::linorder option \<Rightarrow> 'a option \<Rightarrow> sql_bool" where
  "sql_lt a b = (case a of None \<Rightarrow> None
                 | Some x \<Rightarrow> (case b of None \<Rightarrow> None | Some y \<Rightarrow> Some (x < y)))"

definition sql_gt :: "'a::linorder option \<Rightarrow> 'a option \<Rightarrow> sql_bool" where
  "sql_gt a b = (case a of None \<Rightarrow> None
                 | Some x \<Rightarrow> (case b of None \<Rightarrow> None | Some y \<Rightarrow> Some (y < x)))"

definition sql_ge :: "'a::linorder option \<Rightarrow> 'a option \<Rightarrow> sql_bool" where
  "sql_ge a b = (case a of None \<Rightarrow> None
                 | Some x \<Rightarrow> (case b of None \<Rightarrow> None | Some y \<Rightarrow> Some (y \<le> x)))"

fun sql_or :: "sql_bool \<Rightarrow> sql_bool \<Rightarrow> sql_bool" where
  "sql_or (Some True) b = Some True"
| "sql_or a (Some True) = Some True"
| "sql_or (Some False) (Some False) = Some False"
| "sql_or a b = None"

fun sql_and :: "sql_bool \<Rightarrow> sql_bool \<Rightarrow> sql_bool" where
  "sql_and (Some False) b = Some False"
| "sql_and a (Some False) = Some False"
| "sql_and (Some True) (Some True) = Some True"
| "sql_and a b = None"

text \<open>\<open>COALESCE(v, d)\<close> with a literal default \<open>d\<close>: never NULL.\<close>

definition sql_coalesce :: "'a option \<Rightarrow> 'a \<Rightarrow> 'a" where
  "sql_coalesce v d = (case v of None \<Rightarrow> d | Some x \<Rightarrow> x)"

text \<open>\<open>NULLIF(v, d)\<close>: NULL when \<open>v = d\<close>, otherwise \<open>v\<close>.\<close>

definition sql_nullif :: "'a option \<Rightarrow> 'a \<Rightarrow> 'a option" where
  "sql_nullif v d = (case v of None \<Rightarrow> None | Some x \<Rightarrow> if x = d then None else Some x)"

text \<open>
  \<open>ROUND(v, d)\<close> rounds half away from zero (HALF\_UP) to \<open>d\<close> decimal places and is NULL on
  NULL.
\<close>

definition round_half_up :: "nat \<Rightarrow> rat \<Rightarrow> rat" where
  "round_half_up d x =
     (if 0 \<le> x then of_int \<lfloor>x * 10 ^ d + 1 / 2\<rfloor> / 10 ^ d
      else - (of_int \<lfloor>- x * 10 ^ d + 1 / 2\<rfloor> / 10 ^ d))"

definition sql_round :: "rat option \<Rightarrow> nat \<Rightarrow> rat option" where
  "sql_round v d = map_option (round_half_up d) v"

text \<open>
  The aggregate \<open>SUM\<close> skips NULL inputs and is NULL when no input is left (also on an
  empty group); \<open>COUNT(*)\<close> counts rows.
\<close>

definition sql_sum :: "'a::monoid_add option list \<Rightarrow> 'a option" where
  "sql_sum vs = (let xs = concat (map (\<lambda>v. case v of None \<Rightarrow> [] | Some x \<Rightarrow> [x]) vs)
                 in if xs = [] then None else Some (sum_list xs))"

definition sql_count_star :: "'a list \<Rightarrow> int" where
  "sql_count_star rows = int (length rows)"

text \<open>
  Arithmetic is NULL on a NULL operand. Dividing a number by zero is an error of the
  engine in ANSI mode (and NULL otherwise); the model keeps the error as a value, so that
  an expression which cannot raise it is seen not to.
\<close>

datatype sql_error = DivideByZero

definition sql_mul :: "rat option \<Rightarrow> rat option \<Rightarrow> rat option" where
  "sql_mul a b = (case a of None \<Rightarrow> None
                  | Some x \<Rightarrow> (case b of None \<Rightarrow> None | Some y \<Rightarrow> Some (x * y)))"

definition sql_div :: "rat option \<Rightarrow> rat option \<Rightarrow> sql_error + rat option" where
  "sql_div a b = (case b of None \<Rightarrow> Inr None
                  | Some y \<Rightarrow> (case a of None \<Rightarrow> Inr None
                              | Some x \<Rightarrow> if y = 0 then Inl DivideByZero else Inr (Some (x / y))))"

definition sql_cast_rat :: "int option \<Rightarrow> rat option" where
  "sql_cast_rat v = map_option of_int v"

section \<open>Timestamps\<close>

text \<open>
  A timestamp in the session's time zone, by its calendar fields. \<open>EXTRACT(DAYOFWEEK ...)\<close>
  is 1 for Sunday up to 7 for Saturday; \<open>dayofweek\<close> computes it for a Gregorian date with
  a month from 1 to 12.
\<close>

record timestamp =
  ts_year :: int
  ts_month :: int
  ts_day :: int
  ts_hour :: int
  ts_minute :: int
  ts_second :: int

definition month_offset :: "int \<Rightarrow> int" where
  "month_offset m =
     (if m = 1 then 0 else if m = 2 then 3 else if m = 3 then 2 else if m = 4 then 5
      else if m = 5 then 0 else if m = 6 then 3 else if m = 7 then 5 else if m = 8 then 1
      else if m = 9 then 4 else if m = 10 then 6 else if m = 11 then 2 else 4)"

definition dayofweek :: "timestamp \<Rightarrow> int" where
  "dayofweek t =
     (let y = (if ts_month t < 3 then ts_year t - 1 else ts_year t)
      in (y + y div 4 - y div 100 + y div 400 + month_offset (ts_month t) + ts_day t) mod 7 + 1)"

definition sql_date :: "timestamp \<Rightarrow> int \<times> int \<times> int" where
  "sql_date t = (ts_year t, ts_month t, ts_day t)"

section \<open>Silver layer: cleaning and validation\<close>

subsection \<open>Travel purchases\<close>

text \<open>
  The columns of \<open>bronze_travel_purchases\<close> that the silver statement reads, and the
  columns of \<open>silver_travel_purchases\<close>. Field names are the column names with a prefix for
  the table (\<open>bp_\<close>, \<open>sp_\<close>), since the tables share column names.
\<close>

record bronze_purchase =
  bp_id :: "int option"
  bp_ts :: "timestamp option"
  bp_user_id :: "int option"
  bp_destination_id :: "int option"
  bp_clicked :: "bool option"
  bp_purchased :: "bool option"
  bp_booking_date :: "(int \<times> int \<times> int) option"
  bp_price :: "rat option"
  bp_user_latitude :: "rat option"
  bp_user_longitude :: "rat option"
  bp_ingested_at :: "timestamp option"

record silver_purchase =
  sp_transaction_id :: "int option"
  sp_transaction_timestamp :: "timestamp option"
  sp_user_id :: "int option"
  sp_destination_id :: "int option"
  sp_clicked :: bool
  sp_purchased :: bool
  sp_booking_date :: "(int \<times> int \<times> int) option"
  sp_price_usd :: "rat option"
  sp_user_latitude :: "rat option"
  sp_user_longitude :: "rat option"
  sp_price_invalid :: bool
  sp_location_invalid :: bool
  sp_transaction_year :: "int option"
  sp_transaction_month :: "int option"
  sp_transaction_day_of_week :: "int option"
  sp_transaction_hour :: "int option"
  sp_day_type :: string
  sp_ingested_at :: "timestamp option"
  sp_processed_at :: timestamp

text \<open>The \<open>CASE\<close> expressions of the statement, branch by branch.\<close>

definition price_usd :: "rat option \<Rightarrow> rat option" where
  "price_usd price =
     (if sql_true (sql_or (sql_is_null price) (sql_lt price (Some 0))) then None
      else if sql_true (sql_gt price (Some 50000)) then None
      else sql_round price 2)"

definition price_invalid :: "rat option \<Rightarrow> bool" where
  "price_invalid price =
     (if sql_true (sql_or (sql_or (sql_is_null price) (sql_lt price (Some 0)))
                          (sql_gt price (Some 50000)))
      then True else False)"

definition location_invalid :: "rat option \<Rightarrow> rat option \<Rightarrow> bool" where
  "location_invalid user_latitude user_longitude =
     (if sql_true (sql_or (sql_is_null user_latitude) (sql_is_null user_longitude)) then True
      else if sql_true (sql_or (sql_lt user_latitude (Some (- 90)))
                               (sql_gt user_latitude (Some 90))) then True
      else if sql_true (sql_or (sql_lt user_longitude (Some (- 180)))
                               (sql_gt user_longitude (Some 180))) then True
      else False)"

definition day_type :: "timestamp option \<Rightarrow> string" where
  "day_type ts =
     (if map_option dayofweek ts = Some 1 \<or> map_option dayofweek ts = Some 7
      then ''weekend'' else ''weekday'')"

definition clean_purchase :: "timestamp \<Rightarrow> bronze_purchase \<Rightarrow> silver_purchase" where
  "clean_purchase now r =
     \<lparr> sp_transaction_id = bp_id r,
       sp_transaction_timestamp = bp_ts r,
       sp_user_id = bp_user_id r,
       sp_destination_id = bp_destination_id r,
       sp_clicked = sql_coalesce (bp_clicked r) False,
       sp_purchased = sql_coalesce (bp_purchased r) False,
       sp_booking_date = bp_booking_date r,
       sp_price_usd = price_usd (bp_price r),
       sp_user_latitude = bp_user_latitude r,
       sp_user_longitude = bp_user_longitude r,
       sp_price_invalid = price_invalid (bp_price r),
       sp_location_invalid = location_invalid (bp_user_latitude r) (bp_user_longitude r),
       sp_transaction_year = map_option ts_year (bp_ts r),
       sp_transaction_month = map_option ts_month (bp_ts r),
       sp_transaction_day_of_week = map_option dayofweek (bp_ts r),
       sp_transaction_hour = map_option ts_hour (bp_ts r),
       sp_day_type = day_type (bp_ts r),
       sp_ingested_at = bp_ingested_at r,
       sp_processed_at = now \<rparr>"

text \<open>The \<open>WHERE\<close> clause: the hard filter on the three identifiers.\<close>

definition purchase_where :: "bronze_purchase \<Rightarrow> bool" where
  "purchase_where r =
     sql_true (sql_and (sql_and (sql_is_not_null (bp_id r)) (sql_is_not_null (bp_user_id r)))
                       (sql_is_not_null (bp_destination_id r)))"

definition silver_travel_purchases :: "timestamp \<Rightarrow> bronze_purchase list \<Rightarrow> silver_purchase list" where
  "silver_travel_purchases now bronze = map (clean_purchase now) (filter purchase_where bronze)"

subsection \<open>Users\<close>

record bronze_user =
  bu_user_id :: "int option"
  bu_ts :: "timestamp option"
  bu_mean_price_7d :: "rat option"
  bu_last_6m_purchases :: "int option"
  bu_user_longitude :: "rat option"
  bu_user_latitude :: "rat option"
  bu_ingested_at :: "timestamp option"

record silver_user =
  su_user_id :: "int option"
  su_last_updated_at :: "timestamp option"
  su_avg_price_7day :: rat
  su_purchases_6month :: int
  su_user_latitude :: "rat option"
  su_user_longitude :: "rat option"
  su_purchase_frequency_segment :: string
  su_price_segment :: string
  su_ingested_at :: "timestamp option"
  su_processed_at :: timestamp

text \<open>
  The coordinate expressions of \<open>silver_users\<close> and \<open>silver_destinations\<close> are the same
  \<open>CASE\<close> on different columns: each coordinate on its own, NULL outside its range,
  otherwise rounded to 6 places.
\<close>

definition clean_latitude :: "rat option \<Rightarrow> rat option" where
  "clean_latitude latitude =
     (if sql_true (sql_or (sql_or (sql_is_null latitude) (sql_lt latitude (Some (- 90))))
                          (sql_gt latitude (Some 90)))
      then None else sql_round latitude 6)"

definition clean_longitude :: "rat option \<Rightarrow> rat option" where
  "clean_longitude longitude =
     (if sql_true (sql_or (sql_or (sql_is_null longitude) (sql_lt longitude (Some (- 180))))
                          (sql_gt longitude (Some 180)))
      then None else sql_round longitude 6)"

definition purchase_frequency_segment :: "int option \<Rightarrow> string" where
  "purchase_frequency_segment last_6m_purchases =
     (if sql_true (sql_ge last_6m_purchases (Some 10)) then ''high_frequency''
      else if sql_true (sql_ge last_6m_purchases (Some 3)) then ''medium_frequency''
      else ''low_frequency'')"

definition price_segment :: "rat option \<Rightarrow> string" where
  "price_segment mean_price_7d =
     (if sql_true (sql_ge mean_price_7d (Some 500)) then ''premium''
      else if sql_true (sql_ge mean_price_7d (Some 200)) then ''standard''
      else ''budget'')"

definition clean_user :: "timestamp \<Rightarrow> bronze_user \<Rightarrow> silver_user" where
  "clean_user now r =
     \<lparr> su_user_id = bu_user_id r,
       su_last_updated_at = bu_ts r,
       su_avg_price_7day = round_half_up 2 (sql_coalesce (bu_mean_price_7d r) 0),
       su_purchases_6month = sql_coalesce (bu_last_6m_purchases r) 0,
       su_user_latitude = clean_latitude (bu_user_latitude r),
       su_user_longitude = clean_longitude (bu_user_longitude r),
       su_purchase_frequency_segment = purchase_frequency_segment (bu_last_6m_purchases r),
       su_price_segment = price_segment (bu_mean_price_7d r),
       su_ingested_at = bu_ingested_at r,
       su_processed_at = now \<rparr>"

definition user_where :: "bronze_user \<Rightarrow> bool" where
  "user_where r = sql_true (sql_is_not_null (bu_user_id r))"

definition silver_users :: "timestamp \<Rightarrow> bronze_user list \<Rightarrow> silver_user list" where
  "silver_users now bronze = map (clean_user now) (filter user_where bronze)"

subsection \<open>Destinations\<close>

text \<open>
  \<open>INITCAP\<close> lower-cases a string and upper-cases the first character and every
  character that follows a space; \<open>TRIM\<close> removes the spaces at both ends. Letters are
  the ASCII letters here.
\<close>

definition to_upper :: "char \<Rightarrow> char" where
  "to_upper c = (let n = (of_char c :: nat) in if 97 \<le> n \<and> n \<le> 122 then char_of (n - 32) else c)"

definition to_lower :: "char \<Rightarrow> char" where
  "to_lower c = (let n = (of_char c :: nat) in if 65 \<le> n \<and> n \<le> 90 then char_of (n + 32) else c)"

fun initcap_from :: "bool \<Rightarrow> string \<Rightarrow> string" where
  "initcap_from start [] = []"
| "initcap_from start (c # cs) =
     (if start then to_upper c else to_lower c) # initcap_from (c = CHR '' '') cs"

definition sql_initcap :: "string option \<Rightarrow> string option" where
  "sql_initcap s = map_option (initcap_from True) s"

definition sql_trim :: "string option \<Rightarrow> string option" where
  "sql_trim s =
     map_option (\<lambda>cs. rev (dropWhile (\<lambda>c. c = CHR '' '') (rev (dropWhile (\<lambda>c. c = CHR '' '') cs)))) s"

record bronze_destination =
  bd_destination_id :: "int option"
  bd_destination_name :: "string option"
  bd_dest_latitude :: "rat option"
  bd_dest_longitude :: "rat option"
  bd_ingested_at :: "timestamp option"

record silver_destination =
  sd_destination_id :: "int option"
  sd_destination_name :: "string option"
  sd_latitude :: "rat option"
  sd_longitude :: "rat option"
  sd_hemisphere :: string
  sd_ingested_at :: "timestamp option"
  sd_processed_at :: timestamp

definition hemisphere :: "rat option \<Rightarrow> string" where
  "hemisphere dest_latitude =
     (if sql_true (sql_ge dest_latitude (Some 0)) then ''Northern'' else ''Southern'')"

definition clean_destination :: "timestamp \<Rightarrow> bronze_destination \<Rightarrow> silver_destination" where
  "clean_destination now r =
     \<lparr> sd_destination_id = bd_destination_id r,
       sd_destination_name = sql_trim (sql_initcap (bd_destination_name r)),
       sd_latitude = clean_latitude (bd_dest_latitude r),
       sd_longitude = clean_longitude (bd_dest_longitude r),
       sd_hemisphere = hemisphere (bd_dest_latitude r),
       sd_ingested_at = bd_ingested_at r,
       sd_processed_at = now \<rparr>"

definition destination_where :: "bronze_destination \<Rightarrow> bool" where
  "destination_where r = sql_true (sql_is_not_null (bd_destination_id r))"

definition silver_destinations :: "timestamp \<Rightarrow> bronze_destination list \<Rightarrow> silver_destination list" where
  "silver_destinations now bronze = map (clean_destination now) (filter destination_where bronze)"

section \<open>Gold layer: aggregations\<close>

subsection \<open>Aggregate expressions\<close>

text \<open>
  The four gold statements share their aggregate expressions. Two of them read the
  purchases through a \<open>LEFT JOIN\<close>, where the purchase side \<open>t\<close> of a joined row is NULL in
  every column when the dimension row has no purchase; so the expressions are defined
  over a purchase side that may be missing (\<open>silver_purchase option\<close>), and the two
  statements without a join pass every row as \<open>Some\<close>.
\<close>

definition t_clicked :: "silver_purchase option \<Rightarrow> sql_bool" where
  "t_clicked t = map_option sp_clicked t"

definition t_purchased :: "silver_purchase option \<Rightarrow> sql_bool" where
  "t_purchased t = map_option sp_purchased t"

definition t_price_usd :: "silver_purchase option \<Rightarrow> rat option" where
  "t_price_usd t = (case t of None \<Rightarrow> None | Some r \<Rightarrow> sp_price_usd r)"

text \<open>\<open>SUM(CASE WHEN clicked THEN 1 ELSE 0 END)\<close>\<close>

definition sum_clicked :: "silver_purchase option list \<Rightarrow> int option" where
  "sum_clicked ts = sql_sum (map (\<lambda>t. Some (if sql_true (t_clicked t) then 1 else 0)) ts)"

text \<open>\<open>SUM(CASE WHEN purchased THEN 1 ELSE 0 END)\<close>\<close>

definition sum_purchased :: "silver_purchase option list \<Rightarrow> int option" where
  "sum_purchased ts = sql_sum (map (\<lambda>t. Some (if sql_true (t_purchased t) then 1 else 0)) ts)"

text \<open>\<open>SUM(CASE WHEN purchased THEN price_usd ELSE 0 END)\<close>\<close>

definition sum_purchased_price :: "silver_purchase option list \<Rightarrow> rat option" where
  "sum_purchased_price ts =
     sql_sum (map (\<lambda>t. if sql_true (t_purchased t) then t_price_usd t else Some 0) ts)"

text \<open>\<open>ROUND(n * 100.0 / NULLIF(d, 0), 2)\<close>, the shape of every ratio metric.\<close>

definition pct_ratio :: "int option \<Rightarrow> int option \<Rightarrow> sql_error + rat option" where
  "pct_ratio n d =
     (case sql_div (sql_mul (sql_cast_rat n) (Some 100)) (sql_cast_rat (sql_nullif d 0)) of
        Inl e \<Rightarrow> Inl e
      | Inr q \<Rightarrow> Inr (sql_round q 2))"

definition conversion_rate_pct :: "silver_purchase option list \<Rightarrow> sql_error + rat option" where
  "conversion_rate_pct ts = pct_ratio (sum_purchased ts) (Some (sql_count_star ts))"

definition click_to_purchase_rate_pct :: "silver_purchase option list \<Rightarrow> sql_error + rat option" where
  "click_to_purchase_rate_pct ts = pct_ratio (sum_purchased ts) (sum_clicked ts)"

definition click_rate_pct :: "silver_purchase option list \<Rightarrow> sql_error + rat option" where
  "click_rate_pct ts = pct_ratio (sum_clicked ts) (Some (sql_count_star ts))"

definition booking_rate_pct :: "silver_purchase option list \<Rightarrow> sql_error + rat option" where
  "booking_rate_pct ts = pct_ratio (sum_purchased ts) (sum_clicked ts)"

text \<open>\<open>ROUND(SUM(CASE WHEN purchased THEN price_usd ELSE 0 END), 2)\<close>\<close>

definition total_revenue_usd :: "silver_purchase option list \<Rightarrow> rat option" where
  "total_revenue_usd ts = sql_round (sum_purchased_price ts) 2"

definition customer_tier :: "rat option \<Rightarrow> string" where
  "customer_tier spend =
     (if sql_true (sql_ge spend (Some 5000)) then ''platinum''
      else if sql_true (sql_ge spend (Some 2000)) then ''gold''
      else if sql_true (sql_ge spend (Some 500)) then ''silver''
      else ''bronze'')"

subsection \<open>Grouping, joining, windows\<close>

text \<open>
  \<open>GROUP BY\<close>: one group for each distinct key, NULL keys equal to each other. A statement
  is one transaction: an error in any row's expression fails the statement as a whole
  (\<open>sql_rows\<close>).
\<close>

definition group_by :: "('r \<Rightarrow> 'k) \<Rightarrow> 'r list \<Rightarrow> ('k \<times> 'r list) list" where
  "group_by key rows = map (\<lambda>k. (k, filter (\<lambda>r. key r = k) rows)) (remdups (map key rows))"

fun sql_rows :: "('e + 'a) list \<Rightarrow> 'e + 'a list" where
  "sql_rows [] = Inr []"
| "sql_rows (x # xs) =
     (case x of Inl e \<Rightarrow> Inl e
      | Inr v \<Rightarrow> (case sql_rows xs of Inl e \<Rightarrow> Inl e | Inr vs \<Rightarrow> Inr (v # vs)))"

definition sql_eq :: "'a option \<Rightarrow> 'a option \<Rightarrow> sql_bool" where
  "sql_eq a b = (case a of None \<Rightarrow> None
                 | Some x \<Rightarrow> (case b of None \<Rightarrow> None | Some y \<Rightarrow> Some (x = y)))"

text \<open>
  \<open>d LEFT JOIN silver_travel_purchases t ON key d = key t\<close>: every dimension row with each
  of its purchases, or once with a missing purchase side.
\<close>

definition left_join ::
  "('d \<Rightarrow> int option) \<Rightarrow> (silver_purchase \<Rightarrow> int option) \<Rightarrow> 'd list \<Rightarrow> silver_purchase list
     \<Rightarrow> ('d \<times> silver_purchase option) list" where
  "left_join dkey tkey ds ts =
     concat (map (\<lambda>d. let m = filter (\<lambda>t. sql_true (sql_eq (dkey d) (tkey t))) ts
                       in if m = [] then [(d, None)] else map (\<lambda>t. (d, Some t)) m) ds)"

text \<open>
  \<open>LAG(v) OVER (ORDER BY ...)\<close> on rows already in the window's order: the value of the
  row before, NULL for the first row.
\<close>

fun lag_from :: "'a option \<Rightarrow> 'a option list \<Rightarrow> 'a option list" where
  "lag_from prev [] = []"
| "lag_from prev (v # vs) = prev # lag_from v vs"

definition lag :: "'a option list \<Rightarrow> 'a option list" where
  "lag vs = lag_from None vs"

subsection \<open>Daily revenue metrics\<close>

text \<open>
  Of each gold table the keys, the counts, the ratio metrics and the revenue columns are
  modelled; the averages, minima and maxima, distinct counts and ranks are left out.
\<close>

record daily_revenue =
  dr_report_date :: "(int \<times> int \<times> int) option"
  dr_transaction_year :: "int option"
  dr_transaction_month :: "int option"
  dr_day_type :: string
  dr_total_transactions :: int
  dr_total_clicks :: "int option"
  dr_total_purchases :: "int option"
  dr_conversion_rate_pct :: "rat option"
  dr_click_to_purchase_rate_pct :: "rat option"
  dr_total_revenue_usd :: "rat option"
  dr_generated_at :: timestamp

definition daily_key ::
  "silver_purchase \<Rightarrow> (int \<times> int \<times> int) option \<times> int option \<times> int option \<times> string" where
  "daily_key r = (map_option sql_date (sp_transaction_timestamp r), sp_transaction_year r,
                  sp_transaction_month r, sp_day_type r)"

definition daily_row ::
  "timestamp \<Rightarrow> ((int \<times> int \<times> int) option \<times> int option \<times> int option \<times> string) \<times> silver_purchase list
     \<Rightarrow> sql_error + daily_revenue" where
  "daily_row now kg =
     (case kg of ((report_date, year, month, dtype), g) \<Rightarrow>
        (case conversion_rate_pct (map Some g) of Inl e \<Rightarrow> Inl e
         | Inr conv \<Rightarrow>
        (case click_to_purchase_rate_pct (map Some g) of Inl e \<Rightarrow> Inl e
         | Inr c2p \<Rightarrow>
           Inr \<lparr> dr_report_date = report_date,
                 dr_transaction_year = year,
                 dr_transaction_month = month,
                 dr_day_type = dtype,
                 dr_total_transactions = sql_count_star g,
                 dr_total_clicks = sum_clicked (map Some g),
                 dr_total_purchases = sum_purchased (map Some g),
                 dr_conversion_rate_pct = conv,
                 dr_click_to_purchase_rate_pct = c2p,
                 dr_total_revenue_usd = total_revenue_usd (map Some g),
                 dr_generated_at = now \<rparr>)))"

definition gold_daily_revenue_metrics ::
  "timestamp \<Rightarrow> silver_purchase list \<Rightarrow> sql_error + daily_revenue list" where
  "gold_daily_revenue_metrics now silver =
     sql_rows (map (daily_row now) (sort_key (\<lambda>kg. fst (fst kg)) (group_by daily_key silver)))"

subsection \<open>Destination performance\<close>

text \<open>The order of the stored rows (\<open>ORDER BY total_bookings DESC\<close>) is not modelled.\<close>

record destination_performance =
  dp_destination_id :: "int option"
  dp_destination_name :: "string option"
  dp_latitude :: "rat option"
  dp_longitude :: "rat option"
  dp_hemisphere :: string
  dp_total_views :: int
  dp_total_clicks :: "int option"
  dp_total_bookings :: "int option"
  dp_click_rate_pct :: "rat option"
  dp_booking_rate_pct :: "rat option"
  dp_total_revenue_usd :: "rat option"
  dp_generated_at :: timestamp

definition destination_key ::
  "silver_destination \<Rightarrow> int option \<times> string option \<times> rat option \<times> rat option \<times> string" where
  "destination_key d =
     (sd_destination_id d, sd_destination_name d, sd_latitude d, sd_longitude d, sd_hemisphere d)"

definition destination_row ::
  "timestamp \<Rightarrow> (int option \<times> string option \<times> rat option \<times> rat option \<times> string)
       \<times> (silver_destination \<times> silver_purchase option) list
     \<Rightarrow> sql_error + destination_performance" where
  "destination_row now kg =
     (case kg of ((did, dname, lat, lon, hemi), g) \<Rightarrow>
        (case click_rate_pct (map snd g) of Inl e \<Rightarrow> Inl e
         | Inr click_rate \<Rightarrow>
        (case booking_rate_pct (map snd g) of Inl e \<Rightarrow> Inl e
         | Inr booking_rate \<Rightarrow>
           Inr \<lparr> dp_destination_id = did,
                 dp_destination_name = dname,
                 dp_latitude = lat,
                 dp_longitude = lon,
                 dp_hemisphere = hemi,
                 dp_total_views = sql_count_star g,
                 dp_total_clicks = sum_clicked (map snd g),
                 dp_total_bookings = sum_purchased (map snd g),
                 dp_click_rate_pct = click_rate,
                 dp_booking_rate_pct = booking_rate,
                 dp_total_revenue_usd = total_revenue_usd (map snd g),
                 dp_generated_at = now \<rparr>)))"

definition gold_destination_performance ::
  "timestamp \<Rightarrow> silver_destination list \<Rightarrow> silver_purchase list
     \<Rightarrow> sql_error + destination_performance list" where
  "gold_destination_performance now destinations purchases =
     sql_rows (map (destination_row now)
       (group_by (\<lambda>j. destination_key (fst j))
          (left_join sd_destination_id sp_destination_id destinations purchases)))"

subsection \<open>User engagement\<close>

record user_engagement =
  ue_user_id :: "int option"
  ue_purchase_frequency_segment :: string
  ue_price_segment :: string
  ue_historical_avg_price :: rat
  ue_historical_purchases :: int
  ue_user_latitude :: "rat option"
  ue_user_longitude :: "rat option"
  ue_total_interactions :: int
  ue_total_clicks :: "int option"
  ue_total_purchases :: "int option"
  ue_conversion_rate_pct :: "rat option"
  ue_total_spend_usd :: "rat option"
  ue_customer_tier :: string
  ue_generated_at :: timestamp

definition user_key ::
  "silver_user \<Rightarrow> int option \<times> string \<times> string \<times> rat \<times> int \<times> rat option \<times> rat option" where
  "user_key u =
     (su_user_id u, su_purchase_frequency_segment u, su_price_segment u, su_avg_price_7day u,
      su_purchases_6month u, su_user_latitude u, su_user_longitude u)"

text \<open>\<open>COUNT(t.transaction_id)\<close> counts the joined rows whose purchase side has an id.\<close>

definition count_transaction_id :: "silver_purchase option list \<Rightarrow> int" where
  "count_transaction_id ts =
     int (length (filter (\<lambda>t. (case t of None \<Rightarrow> None | Some r \<Rightarrow> sp_transaction_id r) \<noteq> None) ts))"

definition user_row ::
  "timestamp \<Rightarrow> (int option \<times> string \<times> string \<times> rat \<times> int \<times> rat option \<times> rat option)
       \<times> (silver_user \<times> silver_purchase option) list
     \<Rightarrow> sql_error + user_engagement" where
  "user_row now kg =
     (case kg of ((uid, freq, pseg, avg_price, purchases, lat, lon), g) \<Rightarrow>
        (case conversion_rate_pct (map snd g) of Inl e \<Rightarrow> Inl e
         | Inr conv \<Rightarrow>
           Inr \<lparr> ue_user_id = uid,
                 ue_purchase_frequency_segment = freq,
                 ue_price_segment = pseg,
                 ue_historical_avg_price = avg_price,
                 ue_historical_purchases = purchases,
                 ue_user_latitude = lat,
                 ue_user_longitude = lon,
                 ue_total_interactions = count_transaction_id (map snd g),
                 ue_total_clicks = sum_clicked (map snd g),
                 ue_total_purchases = sum_purchased (map snd g),
                 ue_conversion_rate_pct = conv,
                 ue_total_spend_usd = total_revenue_usd (map snd g),
                 ue_customer_tier = customer_tier (sum_purchased_price (map snd g)),
                 ue_generated_at = now \<rparr>))"

definition gold_user_engagement ::
  "timestamp \<Rightarrow> silver_user list \<Rightarrow> silver_purchase list \<Rightarrow> sql_error + user_engagement list" where
  "gold_user_engagement now users purchases =
     sql_rows (map (user_row now)
       (group_by (\<lambda>j. user_key (fst j)) (left_join su_user_id sp_user_id users purchases)))"

subsection \<open>Monthly summary\<close>

text \<open>
  The window of \<open>prev_month_revenue\<close> and the statement's \<open>ORDER BY\<close> both order the groups
  by \<open>(transaction_year, transaction_month)\<close> ascending, NULL first; the group keys are
  distinct, so the order is total.
\<close>

record monthly_summary =
  ms_transaction_year :: "int option"
  ms_transaction_month :: "int option"
  ms_total_transactions :: int
  ms_total_bookings :: "int option"
  ms_monthly_revenue_usd :: "rat option"
  ms_monthly_conversion_pct :: "rat option"
  ms_prev_month_revenue :: "rat option"
  ms_generated_at :: timestamp

definition monthly_key :: "silver_purchase \<Rightarrow> int option \<times> int option" where
  "monthly_key r = (sp_transaction_year r, sp_transaction_month r)"

definition monthly_row ::
  "timestamp \<Rightarrow> ((int option \<times> int option) \<times> silver_purchase list) \<times> rat option
     \<Rightarrow> sql_error + monthly_summary" where
  "monthly_row now kgp =
     (case kgp of (((year, month), g), prev) \<Rightarrow>
        (case conversion_rate_pct (map Some g) of Inl e \<Rightarrow> Inl e
         | Inr conv \<Rightarrow>
           Inr \<lparr> ms_transaction_year = year,
                 ms_transaction_month = month,
                 ms_total_transactions = sql_count_star g,
                 ms_total_bookings = sum_purchased (map Some g),
                 ms_monthly_revenue_usd = total_revenue_usd (map Some g),
                 ms_monthly_conversion_pct = conv,
                 ms_prev_month_revenue = prev,
                 ms_generated_at = now \<rparr>))"

definition gold_monthly_summary ::
  "timestamp \<Rightarrow> silver_purchase list \<Rightarrow> sql_error + monthly_summary list" where
  "gold_monthly_summary now silver =
     (let groups = sort_key fst (group_by monthly_key silver);
          revenue = map (\<lambda>kg. total_revenue_usd (map Some (snd kg))) groups
      in sql_rows (map (monthly_row now) (zip groups (lag revenue))))"

section \<open>Quality auditor\<close>

text \<open>
  The auditor is a notebook: cells run in order and an exception that no \<open>except\<close> catches
  ends the run. What it reads from the engine is its environment: each query returns a
  value or raises (\<open>Inl\<close> with the exception's text). Times are seconds.
  \<open>spark.createDataFrame\<close> on the collected results is taken to succeed.
\<close>

datatype severity = PASS | WARN | FAIL

datatype actual = Count int | ErrorText string | HoursOld "rat option"

record dq_result =
  dq_check :: string
  dq_table :: string
  dq_layer :: string
  dq_expected :: string
  dq_actual :: actual
  dq_status :: severity

record environment =
  env_table_count :: "string \<Rightarrow> string + int"
  env_orphan_users :: "string + int"
  env_orphan_dests :: "string + int"
  env_max_ts :: "string \<Rightarrow> string \<Rightarrow> string + rat option"
  env_now :: "string \<Rightarrow> rat"
  env_neg_prices :: "string + int"
  env_invalid_conv :: "string + int"

definition tables :: "(string \<times> string) list" where
  "tables =
     [(''bronze_travel_purchases'', ''bronze''),
      (''bronze_user_features'', ''bronze''),
      (''bronze_destinations'', ''bronze''),
      (''silver_travel_purchases'', ''silver''),
      (''silver_users'', ''silver''),
      (''silver_destinations'', ''silver''),
      (''gold_daily_revenue_metrics'', ''gold''),
      (''gold_destination_performance'', ''gold''),
      (''gold_user_engagement'', ''gold''),
      (''gold_monthly_summary'', ''gold'')]"

definition record_count_result :: "environment \<Rightarrow> string \<Rightarrow> string \<Rightarrow> dq_result" where
  "record_count_result env table_name layer =
     (case env_table_count env table_name of
        Inr count \<Rightarrow>
          \<lparr> dq_check = ''record_count'', dq_table = table_name, dq_layer = layer,
            dq_expected = ''> 0'', dq_actual = Count count,
            dq_status = (if count > 0 then PASS else FAIL) \<rparr>
      | Inl e \<Rightarrow>
          \<lparr> dq_check = ''record_count'', dq_table = table_name, dq_layer = layer,
            dq_expected = ''> 0'', dq_actual = ErrorText e, dq_status = FAIL \<rparr>)"

fun record_count_checks ::
  "environment \<Rightarrow> (string \<times> string) list \<Rightarrow> dq_result list \<Rightarrow> dq_result list" where
  "record_count_checks env [] dq_results = dq_results"
| "record_count_checks env ((table_name, layer) # rest) dq_results =
     record_count_checks env rest (dq_results @ [record_count_result env table_name layer])"

definition orphan_users_result :: "int \<Rightarrow> dq_result" where
  "orphan_users_result orphan_users =
     \<lparr> dq_check = ''referential_integrity'',
       dq_table = ''silver_travel_purchases -> silver_users'', dq_layer = ''silver'',
       dq_expected = ''0 orphans'', dq_actual = Count orphan_users,
       dq_status = (if orphan_users = 0 then PASS else WARN) \<rparr>"

definition orphan_dests_result :: "int \<Rightarrow> dq_result" where
  "orphan_dests_result orphan_dests =
     \<lparr> dq_check = ''referential_integrity'',
       dq_table = ''silver_travel_purchases -> silver_destinations'', dq_layer = ''silver'',
       dq_expected = ''0 orphans'', dq_actual = Count orphan_dests,
       dq_status = (if orphan_dests = 0 then PASS else WARN) \<rparr>"

text \<open>
  The two referential-integrity queries run outside any \<open>try\<close>: the first query, its
  result, then the second query and its result.
\<close>

definition referential_integrity_checks ::
  "environment \<Rightarrow> dq_result list \<Rightarrow> string + dq_result list" where
  "referential_integrity_checks env dq_results =
     (case env_orphan_users env of Inl e \<Rightarrow> Inl e
      | Inr orphan_users \<Rightarrow>
     (case env_orphan_dests env of Inl e \<Rightarrow> Inl e
      | Inr orphan_dests \<Rightarrow>
          Inr (dq_results @ [orphan_users_result orphan_users] @ [orphan_dests_result orphan_dests])))"

definition freshness_tables :: "(string \<times> string) list" where
  "freshness_tables =
     [(''bronze_travel_purchases'', ''_ingested_at''),
      (''silver_travel_purchases'', ''_processed_at''),
      (''gold_daily_revenue_metrics'', ''_generated_at'')]"

text \<open>
  \<open>hours_old\<close> is \<open>None\<close> for Python's \<open>float('inf')\<close>, the age of an empty table. The
  \<open>except\<close> branch of this loop prints a line and appends nothing.
\<close>

definition freshness_result :: "environment \<Rightarrow> string \<Rightarrow> string \<Rightarrow> dq_result list" where
  "freshness_result env table_name ts_col =
     (case env_max_ts env table_name ts_col of
        Inr max_ts \<Rightarrow>
          (let hours_old = map_option (\<lambda>m. (env_now env table_name - m) / 3600) max_ts
           in [\<lparr> dq_check = ''data_freshness'', dq_table = table_name,
                  dq_layer = takeWhile (\<lambda>c. c \<noteq> CHR ''_'') table_name,
                  dq_expected = ''< 24 hours'', dq_actual = HoursOld hours_old,
                  dq_status = (case hours_old of
                                 Some h \<Rightarrow> if h < 24 then PASS else WARN
                               | None \<Rightarrow> WARN) \<rparr>])
      | Inl e \<Rightarrow> [])"

fun freshness_checks ::
  "environment \<Rightarrow> (string \<times> string) list \<Rightarrow> dq_result list \<Rightarrow> dq_result list" where
  "freshness_checks env [] dq_results = dq_results"
| "freshness_checks env ((table_name, ts_col) # rest) dq_results =
     freshness_checks env rest (dq_results @ freshness_result env table_name ts_col)"

definition negative_prices_result :: "int \<Rightarrow> dq_result" where
  "negative_prices_result neg_prices =
     \<lparr> dq_check = ''business_rule'', dq_table = ''silver_travel_purchases'',
       dq_layer = ''silver'', dq_expected = ''0 negative prices'',
       dq_actual = Count neg_prices,
       dq_status = (if neg_prices = 0 then PASS else FAIL) \<rparr>"

definition invalid_conversion_result :: "int \<Rightarrow> dq_result" where
  "invalid_conversion_result invalid_conv =
     \<lparr> dq_check = ''business_rule'', dq_table = ''gold_daily_revenue_metrics'',
       dq_layer = ''gold'', dq_expected = ''0 invalid rates'',
       dq_actual = Count invalid_conv,
       dq_status = (if invalid_conv = 0 then PASS else FAIL) \<rparr>"

text \<open>The two business-rule queries run outside any \<open>try\<close>.\<close>

definition business_rule_checks ::
  "environment \<Rightarrow> dq_result list \<Rightarrow> string + dq_result list" where
  "business_rule_checks env dq_results =
     (case env_neg_prices env of Inl e \<Rightarrow> Inl e
      | Inr neg_prices \<Rightarrow>
     (case env_invalid_conv env of Inl e \<Rightarrow> Inl e
      | Inr invalid_conv \<Rightarrow>
          Inr (dq_results @ [negative_prices_result neg_prices]
                 @ [invalid_conversion_result invalid_conv])))"

definition run_checks :: "environment \<Rightarrow> string + dq_result list" where
  "run_checks env =
     (case referential_integrity_checks env (record_count_checks env tables []) of
        Inl e \<Rightarrow> Inl e
      | Inr dq_results \<Rightarrow>
          business_rule_checks env (freshness_checks env freshness_tables dq_results))"

text \<open>
  The end of a run: what it wrote to \<open>dq_audit_log\<close> (\<open>None\<close> when it wrote nothing), the
  overall status it printed, and whether it returned or raised.
\<close>

datatype run_error = QueryFailed string | DataQualityFailed int

record audit_run =
  ar_audit_log :: "dq_result list option"
  ar_overall_status :: "severity option"
  ar_outcome :: "run_error + unit"

definition fail_count :: "dq_result list \<Rightarrow> int" where
  "fail_count dq_results = int (length (filter (\<lambda>r. dq_status r = FAIL) dq_results))"

definition summary_report :: "dq_result list \<Rightarrow> audit_run" where
  "summary_report dq_results =
     \<lparr> ar_audit_log = Some dq_results,
       ar_overall_status = Some (if fail_count dq_results = 0 then PASS else FAIL),
       ar_outcome = (if fail_count dq_results > 0
                     then Inl (DataQualityFailed (fail_count dq_results)) else Inr ()) \<rparr>"

definition data_quality :: "environment \<Rightarrow> audit_run" where
  "data_quality env =
     (case run_checks env of
        Inl e \<Rightarrow> \<lparr> ar_audit_log = None, ar_overall_status = None, ar_outcome = Inl (QueryFailed e) \<rparr>
      | Inr dq_results \<Rightarrow> summary_report dq_results)"

section \<open>The unit tests' conversion rate\<close>

text \<open>
  \<open>tests/test_transformations.py\<close> does not call the pipeline: it computes a conversion
  rate of its own in Python, \<open>(purchases * 100.0 / total) if total > 0 else 0\<close>.
\<close>

definition test_conversion_rate :: "int \<Rightarrow> int \<Rightarrow> rat" where
  "test_conversion_rate purchases total' =
     (if total' > 0 then of_int purchases * 100 / of_int total' else 0)"

section \<open>The threshold classifier in the specification's words\<close>

text \<open>
  The specification describes the three segmentations as one classifier: the label of
  the first threshold, in descending order, that the metric meets or exceeds, else the
  default. The source has three \<open>CASE\<close> expressions; they are compared with this one.
\<close>

fun spec_threshold_classifier :: "'a::linorder option \<Rightarrow> ('a \<times> string) list \<Rightarrow> string \<Rightarrow> string" where
  "spec_threshold_classifier metric [] default_label = default_label"
| "spec_threshold_classifier metric ((threshold, label) # rest) default_label =
     (if sql_true (sql_ge metric (Some threshold)) then label
      else spec_threshold_classifier metric rest default_label)"

section \<open>Example inputs\<close>

definition example_now :: timestamp where
  "example_now = \<lparr> ts_year = 2024, ts_month = 3, ts_day = 2, ts_hour = 9, ts_minute = 30, ts_second = 0 \<rparr>"

definition example_purchase :: bronze_purchase where
  "example_purchase =
     \<lparr> bp_id = Some 1,
       bp_ts = Some \<lparr> ts_year = 2024, ts_month = 1, ts_day = 1, ts_hour = 18, ts_minute = 5, ts_second = 0 \<rparr>,
       bp_user_id = Some 7,
       bp_destination_id = Some 3,
       bp_clicked = None,
       bp_purchased = Some False,
       bp_booking_date = None,
       bp_price = Some (12345 / 1000),
       bp_user_latitude = Some (481 / 10),
       bp_user_longitude = Some (115 / 10),
       bp_ingested_at = None \<rparr>"

definition out_of_range_purchase :: bronze_purchase where
  "out_of_range_purchase =
     example_purchase \<lparr> bp_price := Some (- 50), bp_user_latitude := Some 100, bp_user_longitude := Some 0 \<rparr>"

definition december_purchase :: bronze_purchase where
  "december_purchase =
     example_purchase
       \<lparr> bp_id := Some 2,
         bp_ts := Some \<lparr> ts_year = 2023, ts_month = 12, ts_day = 31, ts_hour = 23, ts_minute = 0, ts_second = 0 \<rparr>,
         bp_purchased := Some True \<rparr>"

definition null_id_purchase :: bronze_purchase where
  "null_id_purchase = example_purchase \<lparr> bp_user_id := None \<rparr>"

definition example_user :: bronze_user where
  "example_user =
     \<lparr> bu_user_id = Some 7, bu_ts = None, bu_mean_price_7d = Some 500, bu_last_6m_purchases = Some 10,
       bu_user_longitude = Some (115 / 10), bu_user_latitude = Some (481 / 10), bu_ingested_at = None \<rparr>"

definition example_destination :: bronze_destination where
  "example_destination =
     \<lparr> bd_destination_id = Some 3, bd_destination_name = Some '' new yORK'', bd_dest_latitude = None,
       bd_dest_longitude = Some (- 74), bd_ingested_at = None \<rparr>"

definition example_env :: environment where
  "example_env =
     \<lparr> env_table_count = (\<lambda>t. Inr 5),
       env_orphan_users = Inr 0,
       env_orphan_dests = Inr 2,
       env_max_ts = (\<lambda>t c. Inr (Some 0)),
       env_now = (\<lambda>t. 7200),
       env_neg_prices = Inr 0,
       env_invalid_conv = Inr 0 \<rparr>"

text \<open>A table that only the record count reads is missing.\<close>

definition missing_table_env :: environment where
  "missing_table_env =
     example_env
       \<lparr> env_table_count :=
           (\<lambda>t. if t = ''gold_monthly_summary'' then Inl ''TABLE_OR_VIEW_NOT_FOUND'' else Inr 5) \<rparr>"


section \<open>Facts about the SQL expressions\<close>

lemma sql_or_Some [simp]: "sql_or (Some a) (Some b) = Some (a \<or> b)"
  by (cases a; cases b) simp_all

lemma sql_and_Some [simp]: "sql_and (Some a) (Some b) = Some (a \<and> b)"
  by (cases a; cases b) simp_all

lemmas sql_cond_defs =
  sql_true_def sql_is_null_def sql_is_not_null_def sql_lt_def sql_gt_def sql_ge_def

text \<open>
  \<open>round_half_up d\<close> is a rounding to \<open>d\<close> decimal places: its value is a multiple of
  \<open>10\<^sup>-\<^sup>d\<close> at distance at most half a unit of the last place.
\<close>

lemma round_half_up_grid: "\<exists>k::int. round_half_up d x = of_int k / 10 ^ d"
  unfolding round_half_up_def
  by (metis minus_divide_left of_int_minus)

lemma round_half_up_near: "\<bar>round_half_up d x - x\<bar> \<le> 1 / (2 * 10 ^ d)"
proof -
  let ?s = "(10::rat) ^ d"
  have pos: "0 < ?s" by simp
  have fl: "\<bar>of_int \<lfloor>y + 1 / 2\<rfloor> - y\<bar> \<le> 1 / 2" for y :: rat
    by linarith
  show ?thesis
  proof (cases "0 \<le> x")
    case True
    have "\<bar>of_int \<lfloor>x * ?s + 1 / 2\<rfloor> / ?s - x\<bar> = \<bar>of_int \<lfloor>x * ?s + 1 / 2\<rfloor> - x * ?s\<bar> / ?s"
      using pos by (simp add: field_simps abs_divide)
    also have "\<dots> \<le> (1 / 2) / ?s"
      by (rule divide_right_mono[OF fl]) simp
    finally show ?thesis using True by (simp add: round_half_up_def)
  next
    case False
    have "\<bar>- (of_int \<lfloor>- x * ?s + 1 / 2\<rfloor> / ?s) - x\<bar> = \<bar>of_int \<lfloor>- x * ?s + 1 / 2\<rfloor> - (- x * ?s)\<bar> / ?s"
      using pos by (simp add: field_simps abs_divide abs_minus_commute)
    also have "\<dots> \<le> (1 / 2) / ?s"
      by (rule divide_right_mono[OF fl]) simp
    finally show ?thesis using False by (simp add: round_half_up_def)
  qed
qed

section \<open>Silver layer: the cleaning rules\<close>

text \<open>
  Each \<open>CASE\<close> and \<open>WHERE\<close> of the silver statements, read without the three-valued
  connectives.
\<close>

lemma price_invalid_iff:
  "price_invalid price \<longleftrightarrow> (price = None \<or> (\<exists>p. price = Some p \<and> (p < 0 \<or> 50000 < p)))"
  by (cases price) (auto simp: price_invalid_def sql_cond_defs)

lemma price_usd_None_iff:
  "price_usd price = None \<longleftrightarrow> (price = None \<or> (\<exists>p. price = Some p \<and> (p < 0 \<or> 50000 < p)))"
  by (cases price) (auto simp: price_usd_def sql_cond_defs sql_round_def)

lemma price_usd_valid:
  "\<not> price_invalid price \<Longrightarrow> price_usd price = sql_round price 2"
  by (cases price) (auto simp: price_usd_def price_invalid_def sql_cond_defs)

lemma location_invalid_iff:
  "location_invalid lat lon \<longleftrightarrow>
     (lat = None \<or> lon = None \<or> (\<exists>x. lat = Some x \<and> (x < - 90 \<or> 90 < x))
      \<or> (\<exists>y. lon = Some y \<and> (y < - 180 \<or> 180 < y)))"
  by (cases lat; cases lon) (auto simp: location_invalid_def sql_cond_defs)

lemma purchase_where_iff:
  "purchase_where r \<longleftrightarrow> bp_id r \<noteq> None \<and> bp_user_id r \<noteq> None \<and> bp_destination_id r \<noteq> None"
  by (simp add: purchase_where_def sql_cond_defs)

lemma user_where_iff: "user_where r \<longleftrightarrow> bu_user_id r \<noteq> None"
  by (simp add: user_where_def sql_cond_defs)

lemma destination_where_iff: "destination_where r \<longleftrightarrow> bd_destination_id r \<noteq> None"
  by (simp add: destination_where_def sql_cond_defs)

lemma clean_purchase_in_silver:
  assumes "r \<in> set bronze" and "bp_id r \<noteq> None" and "bp_user_id r \<noteq> None"
    and "bp_destination_id r \<noteq> None"
  shows "clean_purchase now r \<in> set (silver_travel_purchases now bronze)"
  using assms by (simp add: silver_travel_purchases_def purchase_where_iff)

text \<open>
  Claim C1. A bronze purchase whose three identifiers are not NULL has its cleaned record
  in \<open>silver_travel_purchases\<close>. The record's \<open>_price_invalid\<close> flag is true exactly when
  the bronze price is NULL, negative or above 50000; \<open>price_usd\<close> is NULL in exactly
  those cases, and is otherwise \<open>ROUND(price, 2)\<close>.
\<close>

theorem price_validation:
  assumes "r \<in> set bronze" and "bp_id r \<noteq> None" and "bp_user_id r \<noteq> None"
    and "bp_destination_id r \<noteq> None"
  shows "clean_purchase now r \<in> set (silver_travel_purchases now bronze)
     \<and> (sp_price_invalid (clean_purchase now r) \<longleftrightarrow>
          (bp_price r = None \<or> (\<exists>p. bp_price r = Some p \<and> (p < 0 \<or> 50000 < p))))
     \<and> (sp_price_usd (clean_purchase now r) = None \<longleftrightarrow> sp_price_invalid (clean_purchase now r))
     \<and> (\<not> sp_price_invalid (clean_purchase now r) \<longrightarrow>
          sp_price_usd (clean_purchase now r) = sql_round (bp_price r) 2)"
proof -
  have flag: "sp_price_invalid (clean_purchase now r) = price_invalid (bp_price r)"
    and price: "sp_price_usd (clean_purchase now r) = price_usd (bp_price r)"
    by (simp_all add: clean_purchase_def)
  show ?thesis
    using clean_purchase_in_silver[OF assms]
    by (simp add: flag price price_usd_valid)
       (simp add: price_invalid_iff price_usd_None_iff)
qed

theorem price_validation_witness:
  "clean_purchase example_now example_purchase
      \<in> set (silver_travel_purchases example_now [null_id_purchase, example_purchase])
   \<and> \<not> sp_price_invalid (clean_purchase example_now example_purchase)
   \<and> sp_price_usd (clean_purchase example_now example_purchase) = Some (1235 / 100)
   \<and> sp_price_invalid (clean_purchase example_now out_of_range_purchase)
   \<and> sp_price_usd (clean_purchase example_now out_of_range_purchase) = None"
proof -
  have ids: "bp_id example_purchase \<noteq> None" "bp_user_id example_purchase \<noteq> None"
    "bp_destination_id example_purchase \<noteq> None"
    by (simp_all add: example_purchase_def)
  have ids': "bp_id out_of_range_purchase \<noteq> None" "bp_user_id out_of_range_purchase \<noteq> None"
    "bp_destination_id out_of_range_purchase \<noteq> None"
    by (simp_all add: out_of_range_purchase_def example_purchase_def)
  have price: "bp_price example_purchase = Some (2469 / 200)"
    by (simp add: example_purchase_def)
  have price': "bp_price out_of_range_purchase = Some (- 50)"
    by (simp add: out_of_range_purchase_def)
  have rounded: "round_half_up 2 (2469 / 200) = 1235 / 100"
    by (simp add: round_half_up_def)
  have good: "example_purchase \<in> set [null_id_purchase, example_purchase]"
    and bad: "out_of_range_purchase \<in> set [out_of_range_purchase]"
    by simp_all
  show ?thesis
    using price_validation[OF good ids, of example_now]
      price_validation[OF bad ids', of example_now]
    by (simp add: price price' rounded sql_round_def)
qed

text \<open>
  The statement selects \<open>user_latitude\<close> and \<open>user_longitude\<close> as they are: a purchase with
  latitude 100 keeps both coordinates in its cleaned record, with \<open>_location_invalid\<close> set.
\<close>

theorem location_nulling_counterexample:
  "bp_user_latitude out_of_range_purchase = Some 100
   \<and> silver_travel_purchases example_now [out_of_range_purchase]
       = [clean_purchase example_now out_of_range_purchase]
   \<and> sp_location_invalid (clean_purchase example_now out_of_range_purchase)
   \<and> sp_user_latitude (clean_purchase example_now out_of_range_purchase) = Some 100
   \<and> sp_user_longitude (clean_purchase example_now out_of_range_purchase) = Some 0"
  by (simp add: silver_travel_purchases_def purchase_where_iff clean_purchase_def
      location_invalid_iff out_of_range_purchase_def example_purchase_def)

text \<open>
  Claim C2, as the statement behaves. Every cleaned purchase record carries both raw
  user coordinates unchanged, and its \<open>_location_invalid\<close> flag is true exactly when a
  coordinate is NULL, the latitude is outside \<open>[-90, 90]\<close> or the longitude is outside
  \<open>[-180, 180]\<close>.
\<close>

theorem location_flag:
  assumes "r \<in> set bronze" and "bp_id r \<noteq> None" and "bp_user_id r \<noteq> None"
    and "bp_destination_id r \<noteq> None"
  shows "clean_purchase now r \<in> set (silver_travel_purchases now bronze)
     \<and> sp_user_latitude (clean_purchase now r) = bp_user_latitude r
     \<and> sp_user_longitude (clean_purchase now r) = bp_user_longitude r
     \<and> (sp_location_invalid (clean_purchase now r) \<longleftrightarrow>
          (bp_user_latitude r = None \<or> bp_user_longitude r = None
           \<or> (\<exists>x. bp_user_latitude r = Some x \<and> (x < - 90 \<or> 90 < x))
           \<or> (\<exists>y. bp_user_longitude r = Some y \<and> (y < - 180 \<or> 180 < y))))"
  using clean_purchase_in_silver[OF assms]
  by (simp add: clean_purchase_def location_invalid_iff)

theorem location_flag_witness:
  "clean_purchase example_now out_of_range_purchase
      \<in> set (silver_travel_purchases example_now [out_of_range_purchase])
   \<and> sp_user_latitude (clean_purchase example_now out_of_range_purchase) = Some 100
   \<and> sp_location_invalid (clean_purchase example_now out_of_range_purchase)
   \<and> sp_user_latitude (clean_purchase example_now example_purchase) = Some (481 / 10)
   \<and> \<not> sp_location_invalid (clean_purchase example_now example_purchase)"
  using location_flag[of out_of_range_purchase "[out_of_range_purchase]" example_now]
    location_flag[of example_purchase "[example_purchase]" example_now]
  by (simp add: example_purchase_def out_of_range_purchase_def)

text \<open>
  Claim C9. Each silver table is the cleaning of exactly the bronze rows whose
  identifiers are not NULL (id, user id and destination id for purchases, user id for
  users, destination id for destinations): the other rows are left out, none of the
  kept rows is dropped, and every cleaned record has its identifiers.
\<close>

theorem hard_filter:
  "silver_travel_purchases now purchases =
     map (clean_purchase now)
       (filter (\<lambda>r. bp_id r \<noteq> None \<and> bp_user_id r \<noteq> None \<and> bp_destination_id r \<noteq> None) purchases)
   \<and> (\<forall>c \<in> set (silver_travel_purchases now purchases).
         sp_transaction_id c \<noteq> None \<and> sp_user_id c \<noteq> None \<and> sp_destination_id c \<noteq> None)
   \<and> silver_users now users = map (clean_user now) (filter (\<lambda>r. bu_user_id r \<noteq> None) users)
   \<and> (\<forall>c \<in> set (silver_users now users). su_user_id c \<noteq> None)
   \<and> silver_destinations now destinations =
       map (clean_destination now) (filter (\<lambda>r. bd_destination_id r \<noteq> None) destinations)
   \<and> (\<forall>c \<in> set (silver_destinations now destinations). sd_destination_id c \<noteq> None)"
proof -
  have p: "purchase_where = (\<lambda>r. bp_id r \<noteq> None \<and> bp_user_id r \<noteq> None \<and> bp_destination_id r \<noteq> None)"
    by (rule ext) (rule purchase_where_iff)
  have u: "user_where = (\<lambda>r. bu_user_id r \<noteq> None)"
    by (rule ext) (rule user_where_iff)
  have d: "destination_where = (\<lambda>r. bd_destination_id r \<noteq> None)"
    by (rule ext) (rule destination_where_iff)
  have "\<forall>c \<in> set (silver_travel_purchases now purchases).
         sp_transaction_id c \<noteq> None \<and> sp_user_id c \<noteq> None \<and> sp_destination_id c \<noteq> None"
    by (auto simp: silver_travel_purchases_def p clean_purchase_def)
  moreover have "\<forall>c \<in> set (silver_users now users). su_user_id c \<noteq> None"
    by (auto simp: silver_users_def u clean_user_def)
  moreover have "\<forall>c \<in> set (silver_destinations now destinations). sd_destination_id c \<noteq> None"
    by (auto simp: silver_destinations_def d clean_destination_def)
  ultimately show ?thesis
    by (simp add: silver_travel_purchases_def silver_users_def silver_destinations_def p u d)
qed

theorem hard_filter_witness:
  "silver_travel_purchases example_now [null_id_purchase, example_purchase, out_of_range_purchase]
     = [clean_purchase example_now example_purchase, clean_purchase example_now out_of_range_purchase]
   \<and> map sp_user_id (silver_travel_purchases example_now
           [null_id_purchase, example_purchase, out_of_range_purchase]) = [Some 7, Some 7]
   \<and> bp_user_id null_id_purchase = None
   \<and> silver_users example_now [example_user \<lparr> bu_user_id := None \<rparr>, example_user]
     = [clean_user example_now example_user]
   \<and> silver_destinations example_now [example_destination, example_destination \<lparr> bd_destination_id := None \<rparr>]
     = [clean_destination example_now example_destination]"
  using hard_filter[of example_now "[null_id_purchase, example_purchase, out_of_range_purchase]"
      "[example_user \<lparr> bu_user_id := None \<rparr>, example_user]"
      "[example_destination, example_destination \<lparr> bd_destination_id := None \<rparr>]"]
  by (simp add: null_id_purchase_def example_purchase_def out_of_range_purchase_def
      example_user_def example_destination_def clean_purchase_def)

text \<open>
  Claim C10. A bronze destination with a destination id and a NULL latitude is kept, its
  cleaned latitude is NULL and its hemisphere is \<open>Southern\<close>: the comparison
  \<open>dest_latitude >= 0\<close> is UNKNOWN, so the \<open>ELSE\<close> branch is taken. Every cleaned destination
  carries one of the two labels.
\<close>

theorem null_latitude_southern:
  assumes "d \<in> set bronze" and "bd_destination_id d \<noteq> None" and "bd_dest_latitude d = None"
  shows "clean_destination now d \<in> set (silver_destinations now bronze)
     \<and> sd_hemisphere (clean_destination now d) = ''Southern''
     \<and> sd_latitude (clean_destination now d) = None
     \<and> (\<forall>c \<in> set (silver_destinations now bronze).
          sd_hemisphere c = ''Northern'' \<or> sd_hemisphere c = ''Southern'')"
proof -
  have "clean_destination now d \<in> set (silver_destinations now bronze)"
    using assms(1,2) by (simp add: silver_destinations_def destination_where_iff)
  moreover have "sd_hemisphere (clean_destination now d) = ''Southern''"
    using assms(3) by (simp add: clean_destination_def hemisphere_def sql_cond_defs)
  moreover have "sd_latitude (clean_destination now d) = None"
    using assms(3) by (simp add: clean_destination_def clean_latitude_def sql_cond_defs)
  moreover have "\<forall>c \<in> set (silver_destinations now bronze).
          sd_hemisphere c = ''Northern'' \<or> sd_hemisphere c = ''Southern''"
    by (auto simp: silver_destinations_def clean_destination_def hemisphere_def)
  ultimately show ?thesis by simp
qed

theorem null_latitude_southern_witness:
  "clean_destination example_now example_destination
      \<in> set (silver_destinations example_now [example_destination])
   \<and> bd_dest_latitude example_destination = None
   \<and> sd_hemisphere (clean_destination example_now example_destination) = ''Southern''
   \<and> sd_latitude (clean_destination example_now example_destination) = None"
  using null_latitude_southern[of example_destination "[example_destination]" example_now]
  by (simp add: example_destination_def)

section \<open>Gold layer: ratio metrics\<close>

text \<open>
  Every ratio metric has the shape \<open>pct_ratio\<close>. \<open>NULLIF\<close> turns a zero denominator into
  NULL before the division, so the division never sees a zero divisor: the ratio always
  has a value, and the value is NULL when the denominator is zero or NULL.
\<close>

lemma pct_ratio_zero_denominator: "pct_ratio n (Some 0) = Inr None"
  by (simp add: pct_ratio_def sql_nullif_def sql_cast_rat_def sql_div_def sql_round_def)

lemma pct_ratio_null_denominator: "pct_ratio n None = Inr None"
  by (simp add: pct_ratio_def sql_nullif_def sql_cast_rat_def sql_div_def sql_round_def)

lemma pct_ratio_returns: "\<exists>v. pct_ratio n d = Inr v"
  by (cases d; cases n)
     (simp_all add: pct_ratio_def sql_nullif_def sql_cast_rat_def sql_div_def sql_mul_def)


lemma sql_rows_all_Inr:
  "(\<And>x. x \<in> set xs \<Longrightarrow> \<exists>v. f x = Inr v) \<Longrightarrow> sql_rows (map f xs) = Inr (map (\<lambda>x. projr (f x)) xs)"
proof (induction xs)
  case Nil
  then show ?case by simp
next
  case (Cons x xs)
  then obtain v where "f x = Inr v" by auto
  with Cons show ?case by simp
qed

lemma group_by_nonempty: "kg \<in> set (group_by key rows) \<Longrightarrow> snd kg \<noteq> []"
  by (auto simp: group_by_def filter_empty_conv)

lemma daily_row_returns:
  "daily_row now (k, g) =
     Inr \<lparr> dr_report_date = fst k,
           dr_transaction_year = fst (snd k),
           dr_transaction_month = fst (snd (snd k)),
           dr_day_type = snd (snd (snd k)),
           dr_total_transactions = sql_count_star g,
           dr_total_clicks = sum_clicked (map Some g),
           dr_total_purchases = sum_purchased (map Some g),
           dr_conversion_rate_pct = projr (conversion_rate_pct (map Some g)),
           dr_click_to_purchase_rate_pct = projr (click_to_purchase_rate_pct (map Some g)),
           dr_total_revenue_usd = total_revenue_usd (map Some g),
           dr_generated_at = now \<rparr>"
proof -
  obtain v w where "conversion_rate_pct (map Some g) = Inr v"
    and "click_to_purchase_rate_pct (map Some g) = Inr w"
    using pct_ratio_returns
    by (metis conversion_rate_pct_def click_to_purchase_rate_pct_def)
  then show ?thesis
    by (cases k rule: prod_cases4) (simp add: daily_row_def)
qed

lemma destination_row_returns:
  "destination_row now (k, g) =
     Inr \<lparr> dp_destination_id = fst k,
           dp_destination_name = fst (snd k),
           dp_latitude = fst (snd (snd k)),
           dp_longitude = fst (snd (snd (snd k))),
           dp_hemisphere = snd (snd (snd (snd k))),
           dp_total_views = sql_count_star g,
           dp_total_clicks = sum_clicked (map snd g),
           dp_total_bookings = sum_purchased (map snd g),
           dp_click_rate_pct = projr (click_rate_pct (map snd g)),
           dp_booking_rate_pct = projr (booking_rate_pct (map snd g)),
           dp_total_revenue_usd = total_revenue_usd (map snd g),
           dp_generated_at = now \<rparr>"
proof -
  obtain v w where "click_rate_pct (map snd g) = Inr v"
    and "booking_rate_pct (map snd g) = Inr w"
    using pct_ratio_returns
    by (metis click_rate_pct_def booking_rate_pct_def)
  then show ?thesis
    by (cases k rule: prod_cases5) (simp add: destination_row_def)
qed

lemma daily_click_to_purchase_null:
  "\<exists>rows. gold_daily_revenue_metrics now silver = Inr rows
     \<and> (\<forall>m \<in> set rows. dr_total_clicks m = Some 0 \<longrightarrow> dr_click_to_purchase_rate_pct m = None)"
proof -
  define groups where "groups = sort_key (\<lambda>kg. fst (fst kg)) (group_by daily_key silver)"
  define rows where "rows = map (\<lambda>kg. projr (daily_row now kg)) groups"
  have returns: "\<exists>v. daily_row now kg = Inr v" for kg
    by (cases kg) (simp add: daily_row_returns)
  have result: "gold_daily_revenue_metrics now silver = Inr rows"
    unfolding gold_daily_revenue_metrics_def rows_def groups_def[symmetric]
    by (rule sql_rows_all_Inr) (rule returns)
  have "\<forall>m \<in> set rows. dr_total_clicks m = Some 0 \<longrightarrow> dr_click_to_purchase_rate_pct m = None"
  proof (intro ballI impI)
    fix m assume "m \<in> set rows" and zero: "dr_total_clicks m = Some 0"
    then obtain kg where m: "m = projr (daily_row now kg)"
      by (auto simp: rows_def)
    obtain k g where kg: "kg = (k, g)"
      by (cases kg)
    from zero have "sum_clicked (map Some g) = Some 0"
      by (simp add: m kg daily_row_returns)
    then have "click_to_purchase_rate_pct (map Some g) = Inr None"
      by (simp add: click_to_purchase_rate_pct_def pct_ratio_zero_denominator)
    then show "dr_click_to_purchase_rate_pct m = None"
      by (simp add: m kg daily_row_returns)
  qed
  with result show ?thesis by blast
qed

lemma destination_booking_rate_null:
  "\<exists>rows. gold_destination_performance now destinations purchases = Inr rows
     \<and> (\<forall>m \<in> set rows. dp_total_clicks m = Some 0 \<longrightarrow> dp_booking_rate_pct m = None)"
proof -
  define groups where "groups = group_by (\<lambda>j. destination_key (fst j))
     (left_join sd_destination_id sp_destination_id destinations purchases)"
  define rows where "rows = map (\<lambda>kg. projr (destination_row now kg)) groups"
  have returns: "\<exists>v. destination_row now kg = Inr v" for kg
    by (cases kg) (simp add: destination_row_returns)
  have result: "gold_destination_performance now destinations purchases = Inr rows"
    unfolding gold_destination_performance_def rows_def groups_def[symmetric]
    by (rule sql_rows_all_Inr) (rule returns)
  have "\<forall>m \<in> set rows. dp_total_clicks m = Some 0 \<longrightarrow> dp_booking_rate_pct m = None"
  proof (intro ballI impI)
    fix m assume "m \<in> set rows" and zero: "dp_total_clicks m = Some 0"
    then obtain kg where m: "m = projr (destination_row now kg)"
      by (auto simp: rows_def)
    obtain k g where kg: "kg = (k, g)"
      by (cases kg)
    from zero have "sum_clicked (map snd g) = Some 0"
      by (simp add: m kg destination_row_returns)
    then have "booking_rate_pct (map snd g) = Inr None"
      by (simp add: booking_rate_pct_def pct_ratio_zero_denominator)
    then show "dp_booking_rate_pct m = None"
      by (simp add: m kg destination_row_returns)
  qed
  with result show ?thesis by blast
qed

lemma group_count_positive: "kg \<in> set (group_by key rows) \<Longrightarrow> 0 < sql_count_star (snd kg)"
  using group_by_nonempty[of kg key rows] by (simp add: sql_count_star_def)

text \<open>
  Claim C4. For each of the four ratio metrics, a zero denominator gives NULL: not an
  error (the division is never by zero), and not zero. The first conjunct is the shared
  expression on any numerator; the next four are the metrics on any group of rows; the
  last two are the stored columns of
  \<open>gold_daily_revenue_metrics\<close> and \<open>gold_destination_performance\<close> whose denominator is a
  sum of clicks. (The \<open>COUNT(*)\<close> denominators of stored rows are never zero, by
  \<open>group_count_positive\<close>.)
\<close>

theorem ratio_null_on_zero_denominator:
  "pct_ratio n (Some 0) = Inr None
   \<and> (sql_count_star ts = 0 \<longrightarrow> conversion_rate_pct ts = Inr None)
   \<and> (sum_clicked ts = Some 0 \<longrightarrow> click_to_purchase_rate_pct ts = Inr None)
   \<and> (sql_count_star ts = 0 \<longrightarrow> click_rate_pct ts = Inr None)
   \<and> (sum_clicked ts = Some 0 \<longrightarrow> booking_rate_pct ts = Inr None)
   \<and> conversion_rate_pct ts \<noteq> Inl DivideByZero
   \<and> click_to_purchase_rate_pct ts \<noteq> Inl DivideByZero
   \<and> click_rate_pct ts \<noteq> Inl DivideByZero
   \<and> booking_rate_pct ts \<noteq> Inl DivideByZero
   \<and> (\<exists>rows. gold_daily_revenue_metrics now silver = Inr rows
        \<and> (\<forall>m \<in> set rows. dr_total_clicks m = Some 0 \<longrightarrow> dr_click_to_purchase_rate_pct m = None))
   \<and> (\<exists>rows. gold_destination_performance now destinations silver = Inr rows
        \<and> (\<forall>m \<in> set rows. dp_total_clicks m = Some 0 \<longrightarrow> dp_booking_rate_pct m = None))"
proof -
  have no_error: "pct_ratio n d \<noteq> Inl DivideByZero" for n d
    using pct_ratio_returns[of n d] by auto
  have expressions:
    "(sql_count_star ts = 0 \<longrightarrow> conversion_rate_pct ts = Inr None)
     \<and> (sum_clicked ts = Some 0 \<longrightarrow> click_to_purchase_rate_pct ts = Inr None)
     \<and> (sql_count_star ts = 0 \<longrightarrow> click_rate_pct ts = Inr None)
     \<and> (sum_clicked ts = Some 0 \<longrightarrow> booking_rate_pct ts = Inr None)
     \<and> conversion_rate_pct ts \<noteq> Inl DivideByZero
     \<and> click_to_purchase_rate_pct ts \<noteq> Inl DivideByZero
     \<and> click_rate_pct ts \<noteq> Inl DivideByZero
     \<and> booking_rate_pct ts \<noteq> Inl DivideByZero"
    by (simp add: conversion_rate_pct_def click_to_purchase_rate_pct_def click_rate_pct_def
        booking_rate_pct_def pct_ratio_zero_denominator no_error)
  from expressions daily_click_to_purchase_null[of now silver]
    destination_booking_rate_null[of now destinations silver]
  show ?thesis by (simp add: pct_ratio_zero_denominator)
qed

lemma example_daily_clicks:
  "map dr_total_clicks (projr (gold_daily_revenue_metrics example_now
     (silver_travel_purchases example_now [example_purchase]))) = [Some 0]"
  by code_simp

lemma example_destination_clicks:
  "map dp_total_clicks (projr (gold_destination_performance example_now
     (silver_destinations example_now [example_destination])
     (silver_travel_purchases example_now [example_purchase]))) = [Some 0]"
  by code_simp

theorem ratio_null_on_zero_denominator_witness:
  "pct_ratio (Some 5) (Some 0) = Inr None
   \<and> sql_count_star ([] :: silver_purchase option list) = 0
   \<and> conversion_rate_pct [] = Inr None
   \<and> click_rate_pct [] = Inr None
   \<and> sum_clicked [Some (clean_purchase example_now example_purchase)] = Some 0
   \<and> click_to_purchase_rate_pct [Some (clean_purchase example_now example_purchase)] = Inr None
   \<and> booking_rate_pct [Some (clean_purchase example_now example_purchase)] = Inr None
   \<and> (\<exists>rows. gold_daily_revenue_metrics example_now
                (silver_travel_purchases example_now [example_purchase]) = Inr rows
        \<and> map dr_total_clicks rows = [Some 0]
        \<and> map dr_click_to_purchase_rate_pct rows = [None])
   \<and> (\<exists>rows. gold_destination_performance example_now
                (silver_destinations example_now [example_destination])
                (silver_travel_purchases example_now [example_purchase]) = Inr rows
        \<and> map dp_total_clicks rows = [Some 0]
        \<and> map dp_booking_rate_pct rows = [None])"
proof -
  let ?t = "clean_purchase example_now example_purchase"
  let ?silver = "silver_travel_purchases example_now [example_purchase]"
  let ?dests = "silver_destinations example_now [example_destination]"
  note at_group = ratio_null_on_zero_denominator[of "Some 5" "[Some ?t]" example_now ?silver ?dests]
  note at_empty = ratio_null_on_zero_denominator[of "Some 5" "[]" example_now ?silver ?dests]
  have clicks: "sum_clicked [Some ?t] = Some 0"
    by (simp add: sum_clicked_def sql_sum_def t_clicked_def sql_true_def clean_purchase_def
        example_purchase_def sql_coalesce_def)
  have empty: "sql_count_star ([] :: silver_purchase option list) = 0"
    by (simp add: sql_count_star_def)
  obtain daily where daily: "gold_daily_revenue_metrics example_now ?silver = Inr daily"
    and daily_null: "\<forall>m \<in> set daily. dr_total_clicks m = Some 0 \<longrightarrow> dr_click_to_purchase_rate_pct m = None"
    using at_group by blast
  obtain dest where dest: "gold_destination_performance example_now ?dests ?silver = Inr dest"
    and dest_null: "\<forall>m \<in> set dest. dp_total_clicks m = Some 0 \<longrightarrow> dp_booking_rate_pct m = None"
    using at_group by blast
  have daily_clicks: "map dr_total_clicks daily = [Some 0]"
    using example_daily_clicks by (simp add: daily)
  then obtain m where m: "daily = [m]" by auto
  have dest_clicks: "map dp_total_clicks dest = [Some 0]"
    using example_destination_clicks by (simp add: dest)
  then obtain m' where m': "dest = [m']" by auto
  have "map dr_click_to_purchase_rate_pct daily = [None]"
    using daily_null daily_clicks by (simp add: m)
  moreover have "map dp_booking_rate_pct dest = [None]"
    using dest_null dest_clicks by (simp add: m')
  ultimately show ?thesis
    using at_group at_empty clicks empty daily dest daily_clicks dest_clicks
    by simp
qed



text \<open>
  The value 0 for a zero total is what the Python formula of the unit tests computes;
  that formula is not the pipeline's expression.
\<close>

lemma test_conversion_rate_examples:
  "test_conversion_rate 25 100 = 25" "test_conversion_rate 0 0 = 0" "test_conversion_rate 50 50 = 100"
  by (simp_all add: test_conversion_rate_def)

section \<open>Segments and tiers\<close>




text \<open>
  The three \<open>CASE\<close> expressions are instances of the specification's classifier; and a
  NULL metric gets the default label.
\<close>

lemma classifiers_follow_spec:
  "purchase_frequency_segment m =
     spec_threshold_classifier m [(10, ''high_frequency''), (3, ''medium_frequency'')] ''low_frequency''"
  "price_segment p =
     spec_threshold_classifier p [(500, ''premium''), (200, ''standard'')] ''budget''"
  "customer_tier s =
     spec_threshold_classifier s [(5000, ''platinum''), (2000, ''gold''), (500, ''silver'')] ''bronze''"
  by (simp_all add: purchase_frequency_segment_def price_segment_def customer_tier_def)

lemma null_metric_default:
  "purchase_frequency_segment None = ''low_frequency''"
  "price_segment None = ''budget''"
  "customer_tier None = ''bronze''"
  by (simp_all add: purchase_frequency_segment_def price_segment_def customer_tier_def sql_cond_defs)

text \<open>
  The price segment reads the unrounded mean, not the stored \<open>avg_price_7day\<close>: a mean of
  499.996 is stored as 500.00 and its segment is \<open>standard\<close>.
\<close>

lemma price_segment_reads_unrounded_mean:
  "su_avg_price_7day (clean_user example_now (example_user \<lparr> bu_mean_price_7d := Some (499996 / 1000) \<rparr>)) = 500"
  "su_price_segment (clean_user example_now (example_user \<lparr> bu_mean_price_7d := Some (499996 / 1000) \<rparr>))
     = ''standard''"
  by code_simp+

section \<open>Gold layer: the monthly summary\<close>

lemma length_lag_from [simp]: "length (lag_from p vs) = length vs"
  by (induction vs arbitrary: p) simp_all

lemma lag_from_first: "vs \<noteq> [] \<Longrightarrow> lag_from p vs ! 0 = p"
  by (cases vs) simp_all

lemma lag_from_later: "Suc i < length vs \<Longrightarrow> lag_from p vs ! Suc i = vs ! i"
proof (induction vs arbitrary: p i)
  case Nil
  then show ?case by simp
next
  case (Cons v vs)
  show ?case
  proof (cases i)
    case 0
    with Cons.prems show ?thesis by (simp add: lag_from_first)
  next
    case (Suc j)
    with Cons show ?thesis by simp
  qed
qed

lemma distinct_map_sort_key: "distinct (map f (sort_key f xs)) = distinct (map f xs)"
  by (induction xs) (simp_all add: distinct_insort_key)

lemma map_fst_group_by: "map fst (group_by key rows) = remdups (map key rows)"
  by (simp add: group_by_def comp_def)

lemma group_by_rows: "kg \<in> set (group_by key rows) \<Longrightarrow> snd kg = filter (\<lambda>r. key r = fst kg) rows"
  by (auto simp: group_by_def)

lemma monthly_row_returns:
  "monthly_row now ((k, g), prev) =
     Inr \<lparr> ms_transaction_year = fst k,
           ms_transaction_month = snd k,
           ms_total_transactions = sql_count_star g,
           ms_total_bookings = sum_purchased (map Some g),
           ms_monthly_revenue_usd = total_revenue_usd (map Some g),
           ms_monthly_conversion_pct = projr (conversion_rate_pct (map Some g)),
           ms_prev_month_revenue = prev,
           ms_generated_at = now \<rparr>"
proof -
  obtain v where "conversion_rate_pct (map Some g) = Inr v"
    using pct_ratio_returns by (auto simp: conversion_rate_pct_def)
  then show ?thesis
    by (cases k) (simp add: monthly_row_def)
qed

text \<open>
  Claim C7. The monthly summary always has a value. Its rows are in strictly ascending
  order of \<open>(transaction_year, transaction_month)\<close>, one row for each period of the input,
  and each row's revenue is that of its period. The first row's \<open>prev_month_revenue\<close> is
  NULL, and every later row's \<open>prev_month_revenue\<close> is the \<open>monthly_revenue_usd\<close> of the row
  just before it.
\<close>

theorem prev_month_revenue_lag:
  "\<exists>s. gold_monthly_summary now silver = Inr s
     \<and> sorted (map (\<lambda>m. (ms_transaction_year m, ms_transaction_month m)) s)
     \<and> distinct (map (\<lambda>m. (ms_transaction_year m, ms_transaction_month m)) s)
     \<and> set (map (\<lambda>m. (ms_transaction_year m, ms_transaction_month m)) s) = monthly_key ` set silver
     \<and> (\<forall>m \<in> set s. ms_monthly_revenue_usd m =
           total_revenue_usd (map Some (filter (\<lambda>r. monthly_key r =
             (ms_transaction_year m, ms_transaction_month m)) silver)))
     \<and> (s \<noteq> [] \<longrightarrow> ms_prev_month_revenue (hd s) = None)
     \<and> (\<forall>i. Suc i < length s \<longrightarrow>
           ms_prev_month_revenue (s ! Suc i) = ms_monthly_revenue_usd (s ! i))"
proof -
  define groups where "groups = sort_key fst (group_by monthly_key silver)"
  define revenue where "revenue = map (\<lambda>kg. total_revenue_usd (map Some (snd kg))) groups"
  define mk where "mk = (\<lambda>kgp. projr (monthly_row now kgp))"
  define s where "s = map mk (zip groups (lag revenue))"
  let ?period = "\<lambda>m. (ms_transaction_year m, ms_transaction_month m)"
  have result: "gold_monthly_summary now silver = Inr s"
    unfolding gold_monthly_summary_def Let_def s_def mk_def groups_def[symmetric] revenue_def[symmetric]
    by (rule sql_rows_all_Inr) (auto simp: monthly_row_returns)
  have len: "length s = length groups"
    by (simp add: s_def lag_def revenue_def)
  have row: "s ! i = mk (groups ! i, lag revenue ! i)" if "i < length groups" for i
    using that by (simp add: s_def lag_def revenue_def)
  have period: "?period (mk (kg, prev)) = fst kg" for kg prev
    by (cases kg) (simp add: mk_def monthly_row_returns)
  have rev: "ms_monthly_revenue_usd (mk (kg, prev)) = total_revenue_usd (map Some (snd kg))" for kg prev
    by (cases kg) (simp add: mk_def monthly_row_returns)
  have prev: "ms_prev_month_revenue (mk (kg, prev)) = prev" for kg prev
    by (cases kg) (simp add: mk_def monthly_row_returns)
  have periods: "map ?period s = map fst groups"
    by (rule nth_equalityI) (simp_all add: len row period)
  have sorted: "sorted (map ?period s)"
    by (simp only: periods groups_def sorted_sort_key)
  have distinct: "distinct (map ?period s)"
    by (simp only: periods groups_def distinct_map_sort_key map_fst_group_by distinct_remdups)
  have keys: "set (map ?period s) = monthly_key ` set silver"
    by (simp only: periods) (simp add: groups_def group_by_def image_comp comp_def)
  have revenues: "\<forall>m \<in> set s. ms_monthly_revenue_usd m =
      total_revenue_usd (map Some (filter (\<lambda>r. monthly_key r = ?period m) silver))"
  proof
    fix m assume "m \<in> set s"
    then obtain kg p where m: "m = mk (kg, p)" and kg: "kg \<in> set groups"
      by (auto simp: s_def dest: set_zip_leftD)
    from kg have "snd kg = filter (\<lambda>r. monthly_key r = fst kg) silver"
      by (simp add: groups_def group_by_rows)
    then show "ms_monthly_revenue_usd m =
      total_revenue_usd (map Some (filter (\<lambda>r. monthly_key r = ?period m) silver))"
      by (simp only: m rev period)
  qed
  have first: "s \<noteq> [] \<longrightarrow> ms_prev_month_revenue (hd s) = None"
  proof
    assume "s \<noteq> []"
    with len have "0 < length groups" by (metis length_greater_0_conv)
    then have "hd s = mk (groups ! 0, lag revenue ! 0)"
      using row[of 0] \<open>s \<noteq> []\<close> by (simp add: hd_conv_nth)
    moreover have "lag revenue ! 0 = None"
      using \<open>0 < length groups\<close> by (simp add: lag_def revenue_def lag_from_first)
    ultimately show "ms_prev_month_revenue (hd s) = None"
      by (simp add: prev)
  qed
  have later: "\<forall>i. Suc i < length s \<longrightarrow>
      ms_prev_month_revenue (s ! Suc i) = ms_monthly_revenue_usd (s ! i)"
  proof (intro allI impI)
    fix i assume i: "Suc i < length s"
    then have "lag revenue ! Suc i = revenue ! i"
      by (simp add: lag_def lag_from_later len revenue_def)
    moreover have "revenue ! i = total_revenue_usd (map Some (snd (groups ! i)))"
      using i len by (simp add: revenue_def)
    ultimately show "ms_prev_month_revenue (s ! Suc i) = ms_monthly_revenue_usd (s ! i)"
      using i len by (simp add: row prev rev)
  qed
  from result sorted distinct keys revenues first later show ?thesis
    by blast
qed

lemma example_monthly_length:
  "length (projr (gold_monthly_summary example_now
     (silver_travel_purchases example_now [example_purchase, december_purchase, null_id_purchase]))) = 2"
  by code_simp

lemma example_monthly_revenue:
  "map ms_monthly_revenue_usd (projr (gold_monthly_summary example_now
     (silver_travel_purchases example_now [example_purchase, december_purchase, null_id_purchase])))
   = [Some (1235 / 100), Some 0]"
  by code_simp

theorem prev_month_revenue_lag_witness:
  "\<exists>s. gold_monthly_summary example_now
          (silver_travel_purchases example_now [example_purchase, december_purchase, null_id_purchase])
        = Inr s
     \<and> length s = 2
     \<and> map ms_monthly_revenue_usd s = [Some (1235 / 100), Some 0]
     \<and> ms_prev_month_revenue (hd s) = None
     \<and> ms_prev_month_revenue (s ! 1) = Some (1235 / 100)"
proof -
  let ?silver = "silver_travel_purchases example_now [example_purchase, december_purchase, null_id_purchase]"
  obtain s where s: "gold_monthly_summary example_now ?silver = Inr s"
    and first: "s \<noteq> [] \<longrightarrow> ms_prev_month_revenue (hd s) = None"
    and later: "\<forall>i. Suc i < length s \<longrightarrow> ms_prev_month_revenue (s ! Suc i) = ms_monthly_revenue_usd (s ! i)"
    using prev_month_revenue_lag[of example_now ?silver] by blast
  have len: "length s = 2"
    using example_monthly_length by (simp add: s)
  have rev: "map ms_monthly_revenue_usd s = [Some (1235 / 100), Some 0]"
    using example_monthly_revenue by (simp add: s)
  from len have "s \<noteq> []" by auto
  with first have p0: "ms_prev_month_revenue (hd s) = None" by simp
  from len later have "ms_prev_month_revenue (s ! Suc 0) = ms_monthly_revenue_usd (s ! 0)" by simp
  moreover have "ms_monthly_revenue_usd (s ! 0) = Some (1235 / 100)"
    using rev len by (metis nth_map nth_Cons_0 zero_less_numeral)
  ultimately have p1: "ms_prev_month_revenue (s ! 1) = Some (1235 / 100)" by simp
  from s len rev p0 p1 show ?thesis
    by (intro exI[of _ s]) simp
qed

section \<open>Quality auditor: outcome and error handling\<close>

lemma record_count_checks_eq:
  "record_count_checks env ts acc = acc @ map (\<lambda>(t, l). record_count_result env t l) ts"
  by (induction ts arbitrary: acc) auto

lemma freshness_checks_eq:
  "freshness_checks env ts acc = acc @ concat (map (\<lambda>(t, c). freshness_result env t c) ts)"
  by (induction ts arbitrary: acc) auto

lemma fail_count_pos: "0 < fail_count rs \<longleftrightarrow> (\<exists>r \<in> set rs. dq_status r = FAIL)"
  by (simp add: fail_count_def filter_empty_conv)

lemma fail_count_zero: "fail_count rs = 0 \<longleftrightarrow> \<not> (\<exists>r \<in> set rs. dq_status r = FAIL)"
  by (simp add: fail_count_def filter_empty_conv)

lemma data_quality_completed: "run_checks env = Inr rs \<Longrightarrow> data_quality env = summary_report rs"
  by (simp add: data_quality_def)


lemma run_checks_completes:
  assumes "env_orphan_users env = Inr a" and "env_orphan_dests env = Inr b"
    and "env_neg_prices env = Inr c" and "env_invalid_conv env = Inr d"
  shows "run_checks env =
     Inr (map (\<lambda>(t, l). record_count_result env t l) tables
          @ [orphan_users_result a, orphan_dests_result b]
          @ concat (map (\<lambda>(t, c). freshness_result env t c) freshness_tables)
          @ [negative_prices_result c, invalid_conversion_result d])"
  using assms
  by (simp add: run_checks_def referential_integrity_checks_def business_rule_checks_def
      record_count_checks_eq freshness_checks_eq)

text \<open>
  Claim C5. When the checklist completes with results \<open>dq_results\<close>, the run writes exactly
  these results to the audit log, and it raises its final exception if and only if some
  result has status \<open>FAIL\<close>; the printed overall status is \<open>FAIL\<close> in the same case. Results
  that are all \<open>PASS\<close> or \<open>WARN\<close> let the run return.
\<close>

theorem overall_outcome:
  assumes "run_checks env = Inr dq_results"
  shows "ar_audit_log (data_quality env) = Some dq_results
     \<and> (ar_outcome (data_quality env) = Inl (DataQualityFailed (fail_count dq_results))
          \<longleftrightarrow> (\<exists>r \<in> set dq_results. dq_status r = FAIL))
     \<and> (ar_outcome (data_quality env) = Inr () \<longleftrightarrow> \<not> (\<exists>r \<in> set dq_results. dq_status r = FAIL))
     \<and> (ar_overall_status (data_quality env) = Some FAIL
          \<longleftrightarrow> (\<exists>r \<in> set dq_results. dq_status r = FAIL))
     \<and> ((\<forall>r \<in> set dq_results. dq_status r = PASS \<or> dq_status r = WARN)
          \<longrightarrow> ar_outcome (data_quality env) = Inr ())"
proof -
  let ?failed = "\<exists>r \<in> set dq_results. dq_status r = FAIL"
  have run: "data_quality env = summary_report dq_results"
    using assms by (rule data_quality_completed)
  have log: "ar_audit_log (data_quality env) = Some dq_results"
    by (simp add: run summary_report_def)
  have outcome: "ar_outcome (data_quality env) =
      (if ?failed then Inl (DataQualityFailed (fail_count dq_results)) else Inr ())"
    by (simp add: run summary_report_def fail_count_pos)
  have status: "ar_overall_status (data_quality env) = Some (if ?failed then FAIL else PASS)"
    by (simp add: run summary_report_def fail_count_zero)
  have tolerant: "(\<forall>r \<in> set dq_results. dq_status r = PASS \<or> dq_status r = WARN) \<longrightarrow> \<not> ?failed"
    by force
  from log outcome status tolerant show ?thesis
    by (cases ?failed) simp_all
qed

lemma example_env_fail_count: "fail_count (projr (run_checks example_env)) = 0"
  by code_simp

lemma missing_table_env_fail_count: "fail_count (projr (run_checks missing_table_env)) = 1"
  by code_simp

theorem overall_outcome_witness:
  "ar_audit_log (data_quality example_env) = Some (projr (run_checks example_env))
   \<and> ar_outcome (data_quality example_env) = Inr ()
   \<and> ar_audit_log (data_quality missing_table_env) = Some (projr (run_checks missing_table_env))
   \<and> ar_outcome (data_quality missing_table_env) = Inl (DataQualityFailed 1)"
proof -
  obtain rs where rs: "run_checks example_env = Inr rs"
    using run_checks_completes[of example_env 0 2 0 0] by (simp add: example_env_def)
  obtain rs' where rs': "run_checks missing_table_env = Inr rs'"
    using run_checks_completes[of missing_table_env 0 2 0 0]
    by (simp add: missing_table_env_def example_env_def)
  have ok: "\<not> (\<exists>r \<in> set rs. dq_status r = FAIL)"
    using example_env_fail_count by (simp add: rs fail_count_zero)
  have n: "fail_count rs' = 1"
    using missing_table_env_fail_count by (simp add: rs')
  then have bad: "\<exists>r \<in> set rs'. dq_status r = FAIL"
    using fail_count_pos[of rs'] by simp
  show ?thesis
    using overall_outcome[OF rs] overall_outcome[OF rs'] ok bad n
    by (simp add: rs rs')
qed




text \<open>
  A freshness check whose query raises only prints a line: no result is appended for it.
\<close>

lemma freshness_error_not_recorded:
  "env_max_ts env t c = Inl e \<Longrightarrow> freshness_result env t c = []"
  by (simp add: freshness_result_def)

end
